theory Spec2Isabelle
  imports Main
begin

section \<open>Host environment\<close>

text \<open>
  The two classes of the repository, \<^verbatim>\<open>VersionDetector\<close> (src/VersionDetector.ts) and
  \<^verbatim>\<open>UpdateNotification\<close> (src/UpdateNotification.ts), run inside a browser page. What they
  touch of the page is made explicit here:
  \<^item> \<^verbatim>\<open>localStorage\<close> is a map from keys to strings (\<^verbatim>\<open>getItem\<close> of a missing key is
    \<^verbatim>\<open>null\<close>, here \<open>None\<close>);
  \<^item> every \<^verbatim>\<open>fetch\<close>, \<^verbatim>\<open>getItem\<close>, \<^verbatim>\<open>setItem\<close> and \<^verbatim>\<open>clearInterval\<close> is appended to a trace,
    so that "no fetch" and "no storage access" are statements about the trace;
  \<^item> a callback registered by the host application is a function on the host
    application's own state that either returns or throws; the host state is a type
    parameter. In the model of the detector's operations callbacks act on the host
    state only: a callback that re-enters the detector or writes \<^verbatim>\<open>localStorage\<close> is
    outside of it. The section on live registries models the two notification loops
    once more, for callbacks that also call \<^verbatim>\<open>removeCallback\<close> while they run;
  \<^item> what the network answers to a request is an input of the operation that awaits
    it: a promise is either fulfilled with a value or rejected.
  Console output is not modelled.
\<close>

datatype UpdateReason = VersionChange | Redeploy | ResourceError | NetworkError | Unknown

datatype error = FetchFailed | CallbackThrown | NotFoundError

datatype event =
    FetchHead string
  | GetItem string
  | SetItem string string
  | ClearInterval nat

datatype 'h outcome = Returned 'h | Threw 'h

datatype 'a settled = Fulfilled 'a | Rejected

record response =
  ok :: bool
  headers :: "string \<rightharpoonup> string"

record 'h world =
  localStorage :: "string \<rightharpoonup> string"
  trace :: "event list"
  host :: 'h

type_synonym element = string

text \<open>JavaScript truthiness of a value of type \<^verbatim>\<open>string | null\<close>: \<^verbatim>\<open>null\<close> and the empty
  string are falsy.\<close>

definition truthy :: "string option \<Rightarrow> bool" where
  "truthy v = (case v of None \<Rightarrow> False | Some s \<Rightarrow> s \<noteq> [])"

definition getItem :: "string \<Rightarrow> 'h world \<Rightarrow> string option \<times> 'h world" where
  "getItem k w = (localStorage w k, w\<lparr>trace := trace w @ [GetItem k]\<rparr>)"

definition setItem :: "string \<Rightarrow> string \<Rightarrow> 'h world \<Rightarrow> 'h world" where
  "setItem k v w = w\<lparr>localStorage := (localStorage w)(k \<mapsto> v), trace := trace w @ [SetItem k v]\<rparr>"

text \<open>\<^verbatim>\<open>if (v) localStorage.setItem(k, v)\<close>\<close>

definition setItemIfTruthy :: "string \<Rightarrow> string option \<Rightarrow> 'h world \<Rightarrow> 'h world" where
  "setItemIfTruthy k v w =
     (case v of None \<Rightarrow> w | Some s \<Rightarrow> if s \<noteq> [] then setItem k s w else w)"

text \<open>\<^verbatim>\<open>fetch(url, { method: 'HEAD', cache: 'no-cache' })\<close>: issuing the request. The
  cache-busting query \<^verbatim>\<open>?${Date.now()}\<close> of the entry document's URL is left out.\<close>

definition fetchHead :: "string \<Rightarrow> 'h world \<Rightarrow> 'h world" where
  "fetchHead url w = w\<lparr>trace := trace w @ [FetchHead url]\<rparr>"

text \<open>Calling a host callback: it runs on the host state, and a throw surfaces as an
  error value together with whatever the callback did before throwing.\<close>

definition invoke :: "('a \<Rightarrow> 'h \<Rightarrow> 'h outcome) \<Rightarrow> 'a \<Rightarrow> 'h world \<Rightarrow> (error + unit) \<times> 'h world" where
  "invoke callback a w =
     (case callback a (host w) of
        Returned h \<Rightarrow> (Inr (), w\<lparr>host := h\<rparr>)
      | Threw h \<Rightarrow> (Inl CallbackThrown, w\<lparr>host := h\<rparr>))"

text \<open>\<^verbatim>\<open>Array.prototype.forEach\<close>: the body runs on each element in index order; an error
  that escapes the body ends the iteration and escapes \<^verbatim>\<open>forEach\<close>.\<close>

fun forEach :: "('c \<Rightarrow> 's \<Rightarrow> (error + unit) \<times> 's) \<Rightarrow> 'c list \<Rightarrow> 's \<Rightarrow> (error + unit) \<times> 's" where
  "forEach f [] s = (Inr (), s)"
| "forEach f (c # cs) s =
     (case f c s of
        (Inl e, s') \<Rightarrow> (Inl e, s')
      | (Inr u, s') \<Rightarrow> forEach f cs s')"

text \<open>\<^verbatim>\<open>try { callback(a) } catch (error) { console.error(...) }\<close>\<close>

definition tryInvoke :: "'a \<Rightarrow> ('a \<Rightarrow> 'h \<Rightarrow> 'h outcome) \<Rightarrow> 'h world \<Rightarrow> (error + unit) \<times> 'h world" where
  "tryInvoke a callback w =
     (case invoke callback a w of
        (Inl e, w') \<Rightarrow> (Inr (), w')
      | (Inr u, w') \<Rightarrow> (Inr u, w'))"

section \<open>VersionDetector\<close>

record 'h VersionDetector =
  checkInterval :: nat
  timer :: "nat option"
  isChecking :: bool
  onUpdateCallbacks :: "(UpdateReason \<Rightarrow> 'h \<Rightarrow> 'h outcome) list"
  onResourceErrorCallbacks :: "(element option \<Rightarrow> 'h \<Rightarrow> 'h outcome) list"
  isLocalDevelopment :: bool
  skipInDevelopment :: bool
  enableResourceErrorDetection :: bool

text \<open>\<^verbatim>\<open>notifyUpdate(reason)\<close>, VersionDetector.ts lines 347-356.\<close>

definition notifyUpdate :: "UpdateReason \<Rightarrow> 'h VersionDetector \<Rightarrow> 'h world \<Rightarrow> (error + unit) \<times> 'h world" where
  "notifyUpdate reason d w = forEach (tryInvoke reason) (onUpdateCallbacks d) w"

text \<open>
  \<^verbatim>\<open>checkVersionByIndex()\<close>, lines 294-342. The function suspends once, at
  \<^verbatim>\<open>await fetch('/index.html?...')\<close>; \<open>checkVersionByIndex_try\<close> is the rest of its
  \<^verbatim>\<open>try\<close> block, run when the request has settled with \<open>primary\<close>, and
  \<open>checkVersionByIndex_settled\<close> adds the \<^verbatim>\<open>catch\<close> clause and the final
  \<^verbatim>\<open>return false\<close>.
\<close>

definition checkVersionByIndex_try ::
  "response settled \<Rightarrow> 'h VersionDetector \<Rightarrow> 'h world \<Rightarrow> (error + bool) \<times> 'h world" where
  "checkVersionByIndex_try primary d w =
     (case primary of
        Rejected \<Rightarrow> (Inl FetchFailed, w)
      | Fulfilled r \<Rightarrow>
          if ok r then
            (let etag = headers r ''etag'';
                 lastModified = headers r ''last-modified'';
                 (storedEtag, w1) = getItem ''app_index_etag'' w;
                 (storedLastModified, w2) = getItem ''app_index_last_modified'' w1
             in if \<not> truthy storedEtag \<and> \<not> truthy storedLastModified then
                  (Inr False,
                   setItemIfTruthy ''app_index_last_modified'' lastModified
                     (setItemIfTruthy ''app_index_etag'' etag w2))
                else if (truthy etag \<and> etag \<noteq> storedEtag)
                      \<or> (truthy lastModified \<and> lastModified \<noteq> storedLastModified) then
                  (case notifyUpdate Redeploy d
                          (setItemIfTruthy ''app_index_last_modified'' lastModified
                             (setItemIfTruthy ''app_index_etag'' etag w2)) of
                     (Inl e, w3) \<Rightarrow> (Inl e, w3)
                   | (Inr u, w3) \<Rightarrow> (Inr True, w3))
                else (Inr False, w2))
          else (Inr False, w))"

definition checkVersionByIndex_settled ::
  "response settled \<Rightarrow> 'h VersionDetector \<Rightarrow> 'h world \<Rightarrow> (error + bool) \<times> 'h world" where
  "checkVersionByIndex_settled primary d w =
     (case checkVersionByIndex_try primary d w of
        (Inl e, w') \<Rightarrow> (Inr False, w')
      | (Inr b, w') \<Rightarrow> (Inr b, w'))"

text \<open>
  \<^verbatim>\<open>checkForUpdate()\<close>, lines 254-288, in the two pieces the event loop runs it in.
  \<open>checkForUpdate_start\<close> is the synchronous prefix up to the first \<^verbatim>\<open>await\<close>: it
  either resolves at once (\<open>Some\<close>) or sets the in-flight flag, issues the request for
  the entry document and suspends (\<open>None\<close>). \<open>checkForUpdate_settled\<close> is the
  continuation, run when that request has settled with \<open>primary\<close>; \<open>probe\<close> is what the
  network answers to the connectivity request \<^verbatim>\<open>fetch('/', {method: 'HEAD'})\<close> of the
  \<^verbatim>\<open>catch\<close> clause, should the clause run. The \<^verbatim>\<open>finally\<close> clause clears the flag on every
  path of the continuation.
\<close>

definition checkForUpdate_start ::
  "'h VersionDetector \<Rightarrow> 'h world \<Rightarrow> bool option \<times> 'h VersionDetector \<times> 'h world" where
  "checkForUpdate_start d w =
     (if isLocalDevelopment d \<and> skipInDevelopment d then (Some False, d, w)
      else if isChecking d then (Some False, d, w)
      else (None, d\<lparr>isChecking := True\<rparr>, fetchHead ''/index.html'' w))"

definition checkForUpdate_settled ::
  "response settled \<Rightarrow> unit settled \<Rightarrow> 'h VersionDetector \<Rightarrow> 'h world
     \<Rightarrow> (error + bool) \<times> 'h VersionDetector \<times> 'h world" where
  "checkForUpdate_settled primary probe d w =
     (let (r, w') =
        (case checkVersionByIndex_settled primary d w of
           (Inr hasIndexUpdate, w1) \<Rightarrow> (Inr hasIndexUpdate, w1)
         | (Inl e, w1) \<Rightarrow>
             (case probe of
                Fulfilled u \<Rightarrow> (Inr False, fetchHead ''/'' w1)
              | Rejected \<Rightarrow>
                  (case notifyUpdate NetworkError d (fetchHead ''/'' w1) of
                     (Inl e', w2) \<Rightarrow> (Inl e', w2)
                   | (Inr u, w2) \<Rightarrow> (Inr True, w2))))
      in (r, d\<lparr>isChecking := False\<rparr>, w'))"

text \<open>A call that runs to completion with no other call in between.\<close>

definition checkForUpdate ::
  "response settled \<Rightarrow> unit settled \<Rightarrow> 'h VersionDetector \<Rightarrow> 'h world
     \<Rightarrow> (error + bool) \<times> 'h VersionDetector \<times> 'h world" where
  "checkForUpdate primary probe d w =
     (case checkForUpdate_start d w of
        (Some b, d', w') \<Rightarrow> (Inr b, d', w')
      | (None, d', w') \<Rightarrow> checkForUpdate_settled primary probe d' w')"

text \<open>\<^verbatim>\<open>recordInitialVersion()\<close>, lines 83-116; \<open>primary\<close> is what the network answers to
  its request for the entry document, if it issues one.\<close>

definition recordInitialVersion :: "response settled \<Rightarrow> 'h world \<Rightarrow> 'h world" where
  "recordInitialVersion primary w =
     (let (storedEtag, w1) = getItem ''app_index_etag'' w;
          (storedLastModified, w2) = getItem ''app_index_last_modified'' w1
      in if truthy storedEtag \<or> truthy storedLastModified then w2
         else
           (case primary of
              Rejected \<Rightarrow> fetchHead ''/index.html'' w2
            | Fulfilled r \<Rightarrow>
                if ok r then
                  setItemIfTruthy ''app_index_last_modified'' (headers r ''last-modified'')
                    (setItemIfTruthy ''app_index_etag'' (headers r ''etag'')
                       (fetchHead ''/index.html'' w2))
                else fetchHead ''/index.html'' w2))"

text \<open>\<^verbatim>\<open>handleResourceError(element)\<close>, lines 193-214. The one-second delay before the
  check is not modelled: the check runs at once.\<close>

definition handleResourceError ::
  "element option \<Rightarrow> response settled \<Rightarrow> unit settled \<Rightarrow> 'h VersionDetector \<Rightarrow> 'h world
     \<Rightarrow> (error + unit) \<times> 'h VersionDetector \<times> 'h world" where
  "handleResourceError el primary probe d w =
     (if isLocalDevelopment d \<and> skipInDevelopment d then (Inr (), d, w)
      else
        (case checkForUpdate primary probe d w of
           (Inl e, d', w') \<Rightarrow> (Inl e, d', w')
         | (Inr hasUpdate, d', w') \<Rightarrow>
             if hasUpdate then
               (case forEach (tryInvoke el) (onResourceErrorCallbacks d') w' of
                  (r, w'') \<Rightarrow> (r, d', w''))
             else (Inr (), d', w')))"

text \<open>\<^verbatim>\<open>stopVersionCheck()\<close>, lines 243-248, and \<^verbatim>\<open>destroy()\<close>, lines 394-398.\<close>

definition stopVersionCheck :: "'h VersionDetector \<Rightarrow> 'h world \<Rightarrow> 'h VersionDetector \<times> 'h world" where
  "stopVersionCheck d w =
     (case timer d of
        Some t \<Rightarrow> (d\<lparr>timer := None\<rparr>, w\<lparr>trace := trace w @ [ClearInterval t]\<rparr>)
      | None \<Rightarrow> (d, w))"

definition destroy :: "'h VersionDetector \<Rightarrow> 'h world \<Rightarrow> 'h VersionDetector \<times> 'h world" where
  "destroy d w =
     (let (d', w') = stopVersionCheck d w
      in (d'\<lparr>onUpdateCallbacks := [], onResourceErrorCallbacks := []\<rparr>, w'))"

section \<open>Notification over the live registries\<close>

text \<open>
  \<^verbatim>\<open>notifyUpdate\<close> (line 349) and \<^verbatim>\<open>handleResourceError\<close> (line 206) call \<^verbatim>\<open>forEach\<close> on
  the registry arrays themselves, and the public \<^verbatim>\<open>removeCallback\<close> (lines 379-389)
  splices those arrays in place, so a callback that calls \<^verbatim>\<open>removeCallback\<close> changes the
  array under the loop. Here a registered callback is a \<open>listener\<close>: the identity of the
  function (what \<^verbatim>\<open>indexOf\<close> compares), what it does to the host state, and the
  functions it passes to \<^verbatim>\<open>removeCallback\<close> while it runs, in order. \<open>spliceFirst\<close> is
  \<^verbatim>\<open>indexOf\<close> followed by \<^verbatim>\<open>splice(index, 1)\<close>. \<open>forEachLive array a k n\<close> is
  \<^verbatim>\<open>Array.prototype.forEach\<close> from index \<open>k\<close> with \<open>n\<close> indices left to visit: the number
  of indices is the array's length when the loop starts, and an index is visited only
  if the array still has it when its turn comes.
\<close>

record ('a, 'h) listener =
  ident :: nat
  body :: "'a \<Rightarrow> 'h \<Rightarrow> 'h outcome"
  removes :: "nat list"

record 'h registries =
  updateListeners :: "(UpdateReason, 'h) listener list"
  resourceErrorListeners :: "(element option, 'h) listener list"

fun spliceFirst :: "nat \<Rightarrow> ('a, 'h) listener list \<Rightarrow> ('a, 'h) listener list" where
  "spliceFirst f [] = []"
| "spliceFirst f (l # ls) = (if ident l = f then ls else l # spliceFirst f ls)"

definition removeCallback :: "nat \<Rightarrow> 'h registries \<Rightarrow> 'h registries" where
  "removeCallback f r =
     r\<lparr>updateListeners := spliceFirst f (updateListeners r),
       resourceErrorListeners := spliceFirst f (resourceErrorListeners r)\<rparr>"

definition callListener ::
  "'a \<Rightarrow> ('a, 'h) listener \<Rightarrow> 'h registries \<Rightarrow> 'h world
     \<Rightarrow> (error + unit) \<times> 'h registries \<times> 'h world" where
  "callListener a l r w =
     (case invoke (body l) a w of
        (res, w') \<Rightarrow> (res, fold removeCallback (removes l) r, w'))"

text \<open>\<^verbatim>\<open>try { callback(a) } catch (error) { console.error(...) }\<close>\<close>

definition tryCallListener ::
  "'a \<Rightarrow> ('a, 'h) listener \<Rightarrow> 'h registries \<Rightarrow> 'h world
     \<Rightarrow> (error + unit) \<times> 'h registries \<times> 'h world" where
  "tryCallListener a l r w =
     (case callListener a l r w of
        (Inl e, r', w') \<Rightarrow> (Inr (), r', w')
      | (Inr u, r', w') \<Rightarrow> (Inr u, r', w'))"

fun forEachLive ::
  "('h registries \<Rightarrow> ('a, 'h) listener list) \<Rightarrow> 'a \<Rightarrow> nat \<Rightarrow> nat \<Rightarrow> 'h registries \<Rightarrow> 'h world
     \<Rightarrow> (error + unit) \<times> 'h registries \<times> 'h world" where
  "forEachLive array a k 0 r w = (Inr (), r, w)"
| "forEachLive array a k (Suc n) r w =
     (if k < length (array r) then
        (case tryCallListener a (array r ! k) r w of
           (Inl e, r', w') \<Rightarrow> (Inl e, r', w')
         | (Inr u, r', w') \<Rightarrow> forEachLive array a (Suc k) n r' w')
      else forEachLive array a (Suc k) n r w)"

text \<open>The loop of \<^verbatim>\<open>notifyUpdate(reason)\<close>, lines 349-355, and the loop of
  \<^verbatim>\<open>handleResourceError(element)\<close>, lines 206-212.\<close>

definition notifyUpdate_live ::
  "UpdateReason \<Rightarrow> 'h registries \<Rightarrow> 'h world \<Rightarrow> (error + unit) \<times> 'h registries \<times> 'h world" where
  "notifyUpdate_live reason r w =
     forEachLive updateListeners reason 0 (length (updateListeners r)) r w"

definition notifyResourceError_live ::
  "element option \<Rightarrow> 'h registries \<Rightarrow> 'h world \<Rightarrow> (error + unit) \<times> 'h registries \<times> 'h world" where
  "notifyResourceError_live el r w =
     forEachLive resourceErrorListeners el 0 (length (resourceErrorListeners r)) r w"

section \<open>UpdateNotification\<close>

text \<open>
  The prompt's texts are not ASCII in the source; each is a constructor here, named after
  what it says. \<open>rendered\<close> is what \<^verbatim>\<open>updateContent\<close> writes into the dialog's
  \<^verbatim>\<open>innerHTML\<close>: the heading chosen by \<^verbatim>\<open>getContentByReason\<close>, the banner of
  \<^verbatim>\<open>getErrorDetails\<close>, whether the "later" button is there, and the refresh button.
  \<open>dialog\<close> is the container element together with the overlay that is its parent.
  The dialog stays the overlay's child throughout, so \<^verbatim>\<open>container.parentElement\<close> is
  never \<^verbatim>\<open>null\<close>. The opacity, transform and transition styles and the animation frames
  of \<^verbatim>\<open>show\<close> are not modelled; a \<^verbatim>\<open>setTimeout\<close> appends its delay and task to
  \<open>scheduled\<close>. The listeners installed by \<^verbatim>\<open>bindEvents\<close> and \<^verbatim>\<open>bindButtonEvents\<close> are
  not modelled either; what they call is \<open>hide\<close>, \<open>handleLater\<close> and \<open>handleRefresh\<close>.
  \<^verbatim>\<open>show\<close> is a keyword of Isabelle, so the operation is \<open>show_notification\<close>, and the
  prompt's \<^verbatim>\<open>destroy\<close> is \<open>destroy_notification\<close>, apart from the detector's.
\<close>

datatype title_text = TitleNewVersionFound | TitleAppUpdated | TitleNetworkIssue

datatype description_text = DescriptionUpgrade | DescriptionRefresh | DescriptionNetwork

datatype icon_glyph = IconRefresh | IconWarning

datatype banner = NoBanner | BannerResourceLoadFailed | BannerNetworkIssue

datatype button_label = LabelRefresh | LabelRefreshing

datatype task = HideOverlay | ReloadIfRefreshing

record rendered =
  title :: title_text
  description :: description_text
  icon :: icon_glyph
  errorDetails :: banner
  laterButton :: bool
  refreshLabel :: button_label
  refreshDisabled :: bool

record dialog =
  innerHTML :: "rendered option"
  display :: bool
  overlayDisplay :: bool

record 'h UpdateNotification =
  container :: "dialog option"
  overlayInBody :: bool
  laterInterval :: int
  onRefresh :: "(unit \<Rightarrow> 'h \<Rightarrow> 'h outcome) option"
  onLater :: "(unit \<Rightarrow> 'h \<Rightarrow> 'h outcome) option"
  onClose :: "(unit \<Rightarrow> 'h \<Rightarrow> 'h outcome) option"
  isVisible :: bool
  refreshing :: bool
  laterTimestamp :: int
  scheduled :: "(nat \<times> task) list"
  reloads :: nat

text \<open>The constructor, lines 52-120: the overlay and the dialog are created hidden and
  the overlay is appended to \<^verbatim>\<open>document.body\<close>.\<close>

definition newUpdateNotification ::
  "int \<Rightarrow> (unit \<Rightarrow> 'h \<Rightarrow> 'h outcome) option \<Rightarrow> (unit \<Rightarrow> 'h \<Rightarrow> 'h outcome) option
     \<Rightarrow> (unit \<Rightarrow> 'h \<Rightarrow> 'h outcome) option \<Rightarrow> 'h UpdateNotification" where
  "newUpdateNotification interval refresh later close =
     \<lparr>container = Some \<lparr>innerHTML = None, display = False, overlayDisplay = False\<rparr>,
      overlayInBody = True,
      laterInterval = interval,
      onRefresh = refresh, onLater = later, onClose = close,
      isVisible = False, refreshing = False, laterTimestamp = 0,
      scheduled = [], reloads = 0\<rparr>"

text \<open>\<^verbatim>\<open>this.events.onX?.()\<close>\<close>

definition callOptional :: "(unit \<Rightarrow> 'h \<Rightarrow> 'h outcome) option \<Rightarrow> 'h world \<Rightarrow> (error + unit) \<times> 'h world" where
  "callOptional cb w = (case cb of None \<Rightarrow> (Inr (), w) | Some f \<Rightarrow> invoke f () w)"

text \<open>\<^verbatim>\<open>getContentByReason\<close>, lines 317-345, and \<^verbatim>\<open>getErrorDetails\<close>, lines 350-384.\<close>

fun getContentByReason :: "UpdateReason \<Rightarrow> bool \<Rightarrow> title_text \<times> description_text \<times> icon_glyph" where
  "getContentByReason VersionChange forceUpdate = (TitleNewVersionFound, DescriptionUpgrade, IconRefresh)"
| "getContentByReason ResourceError forceUpdate = (TitleAppUpdated, DescriptionRefresh, IconWarning)"
| "getContentByReason NetworkError forceUpdate = (TitleNetworkIssue, DescriptionNetwork, IconWarning)"
| "getContentByReason reason forceUpdate = (TitleAppUpdated, DescriptionRefresh, IconRefresh)"

definition getErrorDetails :: "UpdateReason \<Rightarrow> banner" where
  "getErrorDetails reason =
     (if reason = ResourceError then BannerResourceLoadFailed
      else if reason = NetworkError then BannerNetworkIssue
      else NoBanner)"

text \<open>\<^verbatim>\<open>updateContent(reason, forceUpdate)\<close>, lines 220-312.\<close>

definition updateContent :: "UpdateReason \<Rightarrow> bool \<Rightarrow> 'h UpdateNotification \<Rightarrow> 'h UpdateNotification" where
  "updateContent reason forceUpdate n =
     (case container n of
        None \<Rightarrow> n
      | Some c \<Rightarrow>
          (let (t, desc, i) = getContentByReason reason forceUpdate;
               isForceUpdate = (forceUpdate \<or> reason = ResourceError)
           in n\<lparr>container := Some (c\<lparr>innerHTML := Some
                  \<lparr>title = t, description = desc, icon = i,
                   errorDetails = getErrorDetails reason,
                   laterButton = (\<not> isForceUpdate),
                   refreshLabel = (if refreshing n then LabelRefreshing else LabelRefresh),
                   refreshDisabled = False\<rparr>\<rparr>)\<rparr>))"

text \<open>\<^verbatim>\<open>show(reason, forceUpdate)\<close>, lines 150-186; \<open>now\<close> is \<^verbatim>\<open>Date.now()\<close>.\<close>

definition show_notification :: "UpdateReason \<Rightarrow> bool \<Rightarrow> int \<Rightarrow> 'h UpdateNotification \<Rightarrow> 'h UpdateNotification" where
  "show_notification reason forceUpdate now n =
     (if reason \<noteq> ResourceError \<and> laterTimestamp n \<noteq> 0 \<and> now - laterTimestamp n < laterInterval n
      then n
      else
        (case container n of
           None \<Rightarrow> n
         | Some c0 \<Rightarrow>
             (let n1 = updateContent reason forceUpdate (n\<lparr>isVisible := True, refreshing := False\<rparr>)
              in (case container n1 of
                    None \<Rightarrow> n1
                  | Some c \<Rightarrow> n1\<lparr>container := Some (c\<lparr>overlayDisplay := True, display := True\<rparr>)\<rparr>))))"

text \<open>\<^verbatim>\<open>hide()\<close>, lines 191-215. The timeout's callback is \<open>hideOverlay\<close>.\<close>

definition hide ::
  "'h UpdateNotification \<Rightarrow> 'h world \<Rightarrow> (error + unit) \<times> 'h UpdateNotification \<times> 'h world" where
  "hide n w =
     (case container n of
        None \<Rightarrow> (Inr (), n, w)
      | Some c \<Rightarrow>
          (let n' = n\<lparr>isVisible := False, refreshing := False,
                      scheduled := scheduled n @ [(300, HideOverlay)]\<rparr>
           in (case callOptional (onClose n') w of (r, w') \<Rightarrow> (r, n', w'))))"

definition hideOverlay :: "'h UpdateNotification \<Rightarrow> 'h UpdateNotification" where
  "hideOverlay n =
     (case container n of
        None \<Rightarrow> n
      | Some c \<Rightarrow> n\<lparr>container := Some (c\<lparr>overlayDisplay := False, display := False\<rparr>)\<rparr>)"

text \<open>\<^verbatim>\<open>handleRefresh()\<close>, lines 411-428, with its timeout's callback \<open>reloadIfRefreshing\<close>
  (\<open>reloads\<close> counts the calls of \<^verbatim>\<open>window.location.reload()\<close>), and \<^verbatim>\<open>handleLater()\<close>,
  lines 433-437.\<close>

definition handleRefresh ::
  "'h UpdateNotification \<Rightarrow> 'h world \<Rightarrow> (error + unit) \<times> 'h UpdateNotification \<times> 'h world" where
  "handleRefresh n w =
     (let n1 = n\<lparr>refreshing := True\<rparr>
      in (case callOptional (onRefresh n1) w of
            (Inl e, w') \<Rightarrow> (Inl e, n1, w')
          | (Inr u, w') \<Rightarrow>
              (let n2 = (case container n1 of
                           None \<Rightarrow> n1
                         | Some c \<Rightarrow>
                             (case innerHTML c of
                                None \<Rightarrow> n1
                              | Some html \<Rightarrow>
                                  n1\<lparr>container := Some (c\<lparr>innerHTML := Some
                                        (html\<lparr>refreshDisabled := True, refreshLabel := LabelRefreshing\<rparr>)\<rparr>)\<rparr>))
               in (Inr (), n2\<lparr>scheduled := scheduled n2 @ [(5000, ReloadIfRefreshing)]\<rparr>, w'))))"

definition reloadIfRefreshing :: "'h UpdateNotification \<Rightarrow> 'h UpdateNotification" where
  "reloadIfRefreshing n = (if refreshing n then n\<lparr>reloads := reloads n + 1\<rparr> else n)"

definition handleLater ::
  "int \<Rightarrow> 'h UpdateNotification \<Rightarrow> 'h world \<Rightarrow> (error + unit) \<times> 'h UpdateNotification \<times> 'h world" where
  "handleLater now n w =
     (case hide (n\<lparr>laterTimestamp := now\<rparr>) w of
        (Inl e, n', w') \<Rightarrow> (Inl e, n', w')
      | (Inr u, n', w') \<Rightarrow> (case callOptional (onLater n') w' of (r, w'') \<Rightarrow> (r, n', w'')))"

text \<open>\<^verbatim>\<open>destroy()\<close>, lines 442-450. \<^verbatim>\<open>document.body.removeChild(overlay)\<close> throws a
  \<^verbatim>\<open>NotFoundError\<close> when the overlay is not a child of the body.\<close>

definition destroy_notification :: "'h UpdateNotification \<Rightarrow> error + 'h UpdateNotification" where
  "destroy_notification n =
     (case container n of
        None \<Rightarrow> Inr n
      | Some c \<Rightarrow>
          if overlayInBody n then Inr (n\<lparr>overlayInBody := False, container := None\<rparr>)
          else Inl NotFoundError)"

text \<open>\<^verbatim>\<open>isNotificationVisible()\<close>, lines 455-457.\<close>

definition isNotificationVisible :: "'h UpdateNotification \<Rightarrow> bool" where
  "isNotificationVisible n = isVisible n"

section \<open>Notions used in the statements\<close>

text \<open>
  The host state a callback leaves behind, whether it returned or threw, and the host
  state after calling each callback of a list once, in list order, each on the state
  the one before it left.
\<close>

definition hostAfter :: "'h outcome \<Rightarrow> 'h" where
  "hostAfter out = (case out of Returned h \<Rightarrow> h | Threw h \<Rightarrow> h)"

definition callInOrder :: "'a \<Rightarrow> ('a \<Rightarrow> 'h \<Rightarrow> 'h outcome) list \<Rightarrow> 'h \<Rightarrow> 'h" where
  "callInOrder a cs h = foldl (\<lambda>h c. hostAfter (c a h)) h cs"

text \<open>The three parts of what an operation returns: its result, the state of the
  detector or of the prompt, and the world.\<close>

definition resultOf :: "'r \<times> 'd \<times> 'w \<Rightarrow> 'r" where
  "resultOf x = fst x"

definition stateOf :: "'r \<times> 'd \<times> 'w \<Rightarrow> 'd" where
  "stateOf x = fst (snd x)"

definition worldOf :: "'r \<times> 'd \<times> 'w \<Rightarrow> 'w" where
  "worldOf x = snd (snd x)"

text \<open>The world after \<^verbatim>\<open>checkVersionByIndex\<close> has read the two storage keys, and after its
  two guarded writes of the response's header values.\<close>

definition afterReads :: "'h world \<Rightarrow> 'h world" where
  "afterReads w = w\<lparr>trace := trace w @ [GetItem ''app_index_etag'', GetItem ''app_index_last_modified'']\<rparr>"

definition afterWrites :: "response \<Rightarrow> 'h world \<Rightarrow> 'h world" where
  "afterWrites r w =
     setItemIfTruthy ''app_index_last_modified'' (headers r ''last-modified'')
       (setItemIfTruthy ''app_index_etag'' (headers r ''etag'') w)"

text \<open>The prompt's overlay stays in the document for as long as the prompt has its
  dialog: the constructor establishes this and every operation keeps it.\<close>

definition wellFormed :: "'h UpdateNotification \<Rightarrow> bool" where
  "wellFormed n = (container n = None \<or> overlayInBody n)"

section \<open>Example inputs\<close>

text \<open>
  The host state of the examples is the list of the callbacks called so far, by number.
  \<open>productionDetector\<close> has two update callbacks, the first of which throws, and one
  resource-error callback.
\<close>

definition productionDetector :: "nat list VersionDetector" where
  "productionDetector =
     \<lparr>checkInterval = 1800000, timer = Some 7, isChecking = False,
      onUpdateCallbacks = [\<lambda>reason h. Threw (h @ [1]), \<lambda>reason h. Returned (h @ [2])],
      onResourceErrorCallbacks = [\<lambda>el h. Returned (h @ [3])],
      isLocalDevelopment = False, skipInDevelopment = True,
      enableResourceErrorDetection = True\<rparr>"

text \<open>
  \<open>oneShotRegistries\<close>: callback 1 is registered for updates before callback 2 and
  unregisters itself when it is called; callbacks 3 and 4 are the same pair for resource
  errors, and 3 throws after unregistering itself.
\<close>

definition oneShotRegistries :: "nat list registries" where
  "oneShotRegistries =
     \<lparr>updateListeners =
        [\<lparr>ident = 1, body = (\<lambda>reason h. Returned (h @ [1])), removes = [1]\<rparr>,
         \<lparr>ident = 2, body = (\<lambda>reason h. Returned (h @ [2])), removes = []\<rparr>],
      resourceErrorListeners =
        [\<lparr>ident = 3, body = (\<lambda>el h. Threw (h @ [3])), removes = [3]\<rparr>,
         \<lparr>ident = 4, body = (\<lambda>el h. Returned (h @ [4])), removes = []\<rparr>]\<rparr>"

definition developmentDetector :: "nat list VersionDetector" where
  "developmentDetector = productionDetector\<lparr>isLocalDevelopment := True, timer := None\<rparr>"

definition emptyWorld :: "nat list world" where
  "emptyWorld = \<lparr>localStorage = Map.empty, trace = [], host = []\<rparr>"

definition storedWorld :: "nat list world" where
  "storedWorld =
     \<lparr>localStorage = [''app_index_etag'' \<mapsto> ''a'', ''app_index_last_modified'' \<mapsto> ''t1''],
      trace = [], host = []\<rparr>"

definition responseWith :: "string option \<Rightarrow> string option \<Rightarrow> response" where
  "responseWith etag lastModified =
     \<lparr>ok = True,
      headers = (\<lambda>name. if name = ''etag'' then etag
                        else if name = ''last-modified'' then lastModified else None)\<rparr>"

text \<open>
  \<open>freshNotification\<close> is a prompt as constructed, with \<^verbatim>\<open>laterInterval = 1000\<close>;
  \<open>dismissedNotification\<close> is that prompt after it was shown and the user chose "later"
  at time 7000; \<open>destroyedNotification\<close> is the dismissed prompt after \<^verbatim>\<open>destroy()\<close>.
\<close>

definition freshNotification :: "nat list UpdateNotification" where
  "freshNotification =
     newUpdateNotification 1000 None (Some (\<lambda>u h. Returned (h @ [5]))) (Some (\<lambda>u h. Returned (h @ [6])))"

definition dismissedNotification :: "nat list UpdateNotification" where
  "dismissedNotification =
     stateOf (handleLater 7000 (show_notification VersionChange False 5 freshNotification) emptyWorld)"

definition destroyedNotification :: "nat list UpdateNotification" where
  "destroyedNotification =
     (case destroy_notification dismissedNotification of
        Inr n \<Rightarrow> n
      | Inl e \<Rightarrow> dismissedNotification)"

section \<open>Properties of the detector\<close>

subsection \<open>Callbacks\<close>

lemma tryInvoke_step:
  "tryInvoke a c w = (Inr (), w\<lparr>host := hostAfter (c a (host w))\<rparr>)"
  by (cases "c a (host w)") (simp_all add: tryInvoke_def invoke_def hostAfter_def)

lemma forEach_callInOrder:
  "forEach (tryInvoke a) cs w = (Inr (), w\<lparr>host := callInOrder a cs (host w)\<rparr>)"
proof (induction cs arbitrary: w)
  case Nil
  show ?case by (simp add: callInOrder_def)
next
  case (Cons c cs)
  show ?case
    by (simp add: tryInvoke_step [of a c w] Cons.IH callInOrder_def)
qed

lemma notifyUpdate_result:
  "notifyUpdate reason d w =
     (Inr (), w\<lparr>host := callInOrder reason (onUpdateCallbacks d) (host w)\<rparr>)"
  by (simp add: notifyUpdate_def forEach_callInOrder)

subsection \<open>Storage\<close>

lemma setItemIfTruthy_host: "host (setItemIfTruthy k v w) = host w"
  by (simp add: setItemIfTruthy_def setItem_def split: option.splits)

lemma setItemIfTruthy_storage:
  "localStorage (setItemIfTruthy k v w) =
     (if truthy v then (localStorage w)(k \<mapsto> the v) else localStorage w)"
  by (simp add: setItemIfTruthy_def setItem_def truthy_def split: option.splits)

lemma setItemIfTruthy_trace:
  "trace (setItemIfTruthy k v w) = trace w @ (if truthy v then [SetItem k (the v)] else [])"
  by (simp add: setItemIfTruthy_def setItem_def truthy_def split: option.splits)

subsection \<open>The check, path by path\<close>

lemma checkVersionByIndex_try_ok:
  assumes "ok r"
  shows "checkVersionByIndex_try (Fulfilled r) d w =
    (if \<not> truthy (localStorage w ''app_index_etag'')
        \<and> \<not> truthy (localStorage w ''app_index_last_modified'')
     then (Inr False, afterWrites r (afterReads w))
     else if (truthy (headers r ''etag'') \<and> headers r ''etag'' \<noteq> localStorage w ''app_index_etag'')
           \<or> (truthy (headers r ''last-modified'')
               \<and> headers r ''last-modified'' \<noteq> localStorage w ''app_index_last_modified'')
     then (Inr True,
           (afterWrites r (afterReads w))\<lparr>host := callInOrder Redeploy (onUpdateCallbacks d) (host w)\<rparr>)
     else (Inr False, afterReads w))"
  using assms
  by (simp add: checkVersionByIndex_try_def getItem_def notifyUpdate_result afterReads_def
      afterWrites_def setItemIfTruthy_host Let_def)

lemma checkVersionByIndex_settled_ok:
  assumes "ok r"
  shows "checkVersionByIndex_settled (Fulfilled r) d w = checkVersionByIndex_try (Fulfilled r) d w"
  using assms
  by (simp add: checkVersionByIndex_settled_def checkVersionByIndex_try_ok)

lemma checkVersionByIndex_settled_not_ok:
  assumes "\<not> ok r"
  shows "checkVersionByIndex_settled (Fulfilled r) d w = (Inr False, w)"
  using assms
  by (simp add: checkVersionByIndex_settled_def checkVersionByIndex_try_def)

lemma checkVersionByIndex_settled_rejected:
  "checkVersionByIndex_settled Rejected d w = (Inr False, w)"
  by (simp add: checkVersionByIndex_settled_def checkVersionByIndex_try_def)

lemma checkVersionByIndex_settled_never_throws:
  "\<exists>b w'. checkVersionByIndex_settled primary d w = (Inr b, w')"
proof (cases primary)
  case Rejected
  then show ?thesis by (auto simp add: checkVersionByIndex_settled_rejected)
next
  case (Fulfilled r)
  then show ?thesis
    by (cases "ok r")
       (auto simp add: checkVersionByIndex_settled_not_ok checkVersionByIndex_settled_ok
          checkVersionByIndex_try_ok)
qed

lemma checkForUpdate_settled_eq:
  "checkForUpdate_settled primary probe d w =
     (fst (checkVersionByIndex_settled primary d w), d\<lparr>isChecking := False\<rparr>,
      snd (checkVersionByIndex_settled primary d w))"
proof -
  obtain b w' where "checkVersionByIndex_settled primary d w = (Inr b, w')"
    using checkVersionByIndex_settled_never_throws by blast
  then show ?thesis by (simp add: checkForUpdate_settled_def)
qed

lemma checkForUpdate_ungated:
  assumes "\<not> (isLocalDevelopment d \<and> skipInDevelopment d)" and "\<not> isChecking d"
  shows "checkForUpdate primary probe d w =
     (fst (checkVersionByIndex_settled primary (d\<lparr>isChecking := True\<rparr>) (fetchHead ''/index.html'' w)),
      d\<lparr>isChecking := False\<rparr>,
      snd (checkVersionByIndex_settled primary (d\<lparr>isChecking := True\<rparr>) (fetchHead ''/index.html'' w)))"
  using assms
  by (auto simp add: checkForUpdate_def checkForUpdate_start_def checkForUpdate_settled_eq)

lemma parts:
  "resultOf (a, b, c) = a" "stateOf (a, b, c) = b" "worldOf (a, b, c) = c"
  by (simp_all add: resultOf_def stateOf_def worldOf_def)

lemma afterReads_parts:
  "localStorage (afterReads w) = localStorage w"
  "host (afterReads w) = host w"
  "trace (afterReads w) = trace w @ [GetItem ''app_index_etag'', GetItem ''app_index_last_modified'']"
  by (simp_all add: afterReads_def)

lemma fetchHead_parts:
  "localStorage (fetchHead url w) = localStorage w"
  "host (fetchHead url w) = host w"
  "trace (fetchHead url w) = trace w @ [FetchHead url]"
  by (simp_all add: fetchHead_def)

lemma afterWrites_host: "host (afterWrites r w) = host w"
  by (simp add: afterWrites_def setItemIfTruthy_host)

lemma afterWrites_etag:
  "localStorage (afterWrites r w) ''app_index_etag'' =
     (if truthy (headers r ''etag'') then headers r ''etag'' else localStorage w ''app_index_etag'')"
  by (auto simp add: afterWrites_def setItemIfTruthy_storage truthy_def split: option.splits)

lemma afterWrites_last_modified:
  "localStorage (afterWrites r w) ''app_index_last_modified'' =
     (if truthy (headers r ''last-modified'') then headers r ''last-modified''
      else localStorage w ''app_index_last_modified'')"
  by (auto simp add: afterWrites_def setItemIfTruthy_storage truthy_def split: option.splits)

lemma afterWrites_other:
  assumes "k \<noteq> ''app_index_etag''" and "k \<noteq> ''app_index_last_modified''"
  shows "localStorage (afterWrites r w) k = localStorage w k"
  using assms by (simp add: afterWrites_def setItemIfTruthy_storage)

lemma afterWrites_trace:
  "trace (afterWrites r w) =
     trace w @ (if truthy (headers r ''etag'') then [SetItem ''app_index_etag'' (the (headers r ''etag''))] else [])
             @ (if truthy (headers r ''last-modified'')
                then [SetItem ''app_index_last_modified'' (the (headers r ''last-modified''))] else [])"
  by (simp add: afterWrites_def setItemIfTruthy_trace)

lemma checkForUpdate_fulfilled_ok:
  assumes "\<not> (isLocalDevelopment d \<and> skipInDevelopment d)" and "\<not> isChecking d" and "ok r"
  shows "checkForUpdate (Fulfilled r) probe d w =
    (if \<not> truthy (localStorage w ''app_index_etag'')
        \<and> \<not> truthy (localStorage w ''app_index_last_modified'')
     then (Inr False, d\<lparr>isChecking := False\<rparr>, afterWrites r (afterReads (fetchHead ''/index.html'' w)))
     else if (truthy (headers r ''etag'') \<and> headers r ''etag'' \<noteq> localStorage w ''app_index_etag'')
           \<or> (truthy (headers r ''last-modified'')
               \<and> headers r ''last-modified'' \<noteq> localStorage w ''app_index_last_modified'')
     then (Inr True, d\<lparr>isChecking := False\<rparr>,
           (afterWrites r (afterReads (fetchHead ''/index.html'' w)))
             \<lparr>host := callInOrder Redeploy (onUpdateCallbacks d) (host w)\<rparr>)
     else (Inr False, d\<lparr>isChecking := False\<rparr>, afterReads (fetchHead ''/index.html'' w)))"
  using assms
  by (simp add: checkForUpdate_ungated checkVersionByIndex_settled_ok checkVersionByIndex_try_ok
      fetchHead_parts)

lemma checkForUpdate_fulfilled_not_ok:
  assumes "\<not> (isLocalDevelopment d \<and> skipInDevelopment d)" and "\<not> isChecking d" and "\<not> ok r"
  shows "checkForUpdate (Fulfilled r) probe d w =
           (Inr False, d\<lparr>isChecking := False\<rparr>, fetchHead ''/index.html'' w)"
  using assms
  by (simp add: checkForUpdate_ungated checkVersionByIndex_settled_not_ok)

lemma checkForUpdate_gated:
  assumes "(isLocalDevelopment d \<and> skipInDevelopment d) \<or> isChecking d"
  shows "checkForUpdate primary probe d w = (Inr False, d, w)"
  using assms
  by (auto simp add: checkForUpdate_def checkForUpdate_start_def)

text \<open>
  C1 (network-error fallback; the code departs from the claim). When the request for the
  entry document is rejected, a call of \<^verbatim>\<open>checkForUpdate\<close> that passed its two gates
  resolves \<open>false\<close> whatever the connectivity probe would answer: the rejection is caught
  inside \<^verbatim>\<open>checkVersionByIndex\<close>, so the \<^verbatim>\<open>catch\<close> clause of \<^verbatim>\<open>checkForUpdate\<close> never
  runs. The request for the entry document is the only event added to the trace (no
  probe of \<^verbatim>\<open>/\<close> is sent) and the host state is as before (no callback is called).
\<close>

theorem checkForUpdate_primary_fetch_rejected:
  assumes "\<not> (isLocalDevelopment d \<and> skipInDevelopment d)" and "\<not> isChecking d"
  shows "checkForUpdate Rejected probe d w =
           (Inr False, d\<lparr>isChecking := False\<rparr>, fetchHead ''/index.html'' w)"
  using assms
  by (simp add: checkForUpdate_ungated checkVersionByIndex_settled_rejected)

theorem checkForUpdate_primary_fetch_rejected_witness:
  "\<not> (isLocalDevelopment productionDetector \<and> skipInDevelopment productionDetector)
   \<and> \<not> isChecking productionDetector
   \<and> resultOf (checkForUpdate Rejected Rejected productionDetector storedWorld) = Inr False
   \<and> trace (worldOf (checkForUpdate Rejected Rejected productionDetector storedWorld))
       = [FetchHead ''/index.html'']
   \<and> host (worldOf (checkForUpdate Rejected Rejected productionDetector storedWorld)) = []"
  using checkForUpdate_primary_fetch_rejected [of productionDetector Rejected storedWorld]
  by (simp add: parts productionDetector_def storedWorld_def fetchHead_def)




text \<open>
  C3 (first-visit quiescence). When both storage keys are absent and the fetch is
  fulfilled with an ok response, a call of \<^verbatim>\<open>checkForUpdate\<close> that passes the gates
  resolves \<open>false\<close>, calls no callback, and stores under each key the value of its header
  (a header that is absent or empty leaves its key absent); a second call, on the
  detector and the world the first one left, whose response is ok and carries the same
  two header values, resolves \<open>false\<close> as well and calls no callback.
\<close>

theorem first_visit_quiescence:
  assumes "\<not> (isLocalDevelopment d \<and> skipInDevelopment d)" and "\<not> isChecking d"
    and "localStorage w ''app_index_etag'' = None"
    and "localStorage w ''app_index_last_modified'' = None"
    and "ok r" and "ok r'"
    and "headers r' ''etag'' = headers r ''etag''"
    and "headers r' ''last-modified'' = headers r ''last-modified''"
  shows "resultOf (checkForUpdate (Fulfilled r) probe d w) = Inr False
       \<and> host (worldOf (checkForUpdate (Fulfilled r) probe d w)) = host w
       \<and> localStorage (worldOf (checkForUpdate (Fulfilled r) probe d w)) ''app_index_etag''
           = (if truthy (headers r ''etag'') then headers r ''etag'' else None)
       \<and> localStorage (worldOf (checkForUpdate (Fulfilled r) probe d w)) ''app_index_last_modified''
           = (if truthy (headers r ''last-modified'') then headers r ''last-modified'' else None)
       \<and> resultOf (checkForUpdate (Fulfilled r') probe'
            (stateOf (checkForUpdate (Fulfilled r) probe d w))
            (worldOf (checkForUpdate (Fulfilled r) probe d w))) = Inr False
       \<and> host (worldOf (checkForUpdate (Fulfilled r') probe'
            (stateOf (checkForUpdate (Fulfilled r) probe d w))
            (worldOf (checkForUpdate (Fulfilled r) probe d w)))) = host w"
proof -
  let ?w1 = "afterWrites r (afterReads (fetchHead ''/index.html'' w))"
  let ?d1 = "d\<lparr>isChecking := False\<rparr>"
  have first: "checkForUpdate (Fulfilled r) probe d w = (Inr False, ?d1, ?w1)"
    using assms(3,4)
    by (simp add: checkForUpdate_fulfilled_ok [OF assms(1) assms(2) assms(5)] truthy_def)
  have e1: "localStorage ?w1 ''app_index_etag''
              = (if truthy (headers r ''etag'') then headers r ''etag'' else None)"
    using assms(3) by (simp add: afterWrites_etag afterReads_parts fetchHead_parts)
  have l1: "localStorage ?w1 ''app_index_last_modified''
              = (if truthy (headers r ''last-modified'') then headers r ''last-modified'' else None)"
    using assms(4) by (simp add: afterWrites_last_modified afterReads_parts fetchHead_parts)
  have h1: "host ?w1 = host w"
    by (simp add: afterWrites_host afterReads_parts fetchHead_parts)
  have g1: "\<not> (isLocalDevelopment ?d1 \<and> skipInDevelopment ?d1)" "\<not> isChecking ?d1"
    using assms(1) by simp_all
  have second: "resultOf (checkForUpdate (Fulfilled r') probe' ?d1 ?w1) = Inr False
              \<and> host (worldOf (checkForUpdate (Fulfilled r') probe' ?d1 ?w1)) = host w"
    by (simp add: checkForUpdate_fulfilled_ok [OF g1(1) g1(2) assms(6)] parts e1 l1 h1 assms(7,8)
          afterWrites_host afterReads_parts fetchHead_parts truthy_def)
  show ?thesis
    using first e1 l1 h1 second by (simp add: parts)
qed

theorem first_visit_quiescence_witness:
  "\<not> (isLocalDevelopment productionDetector \<and> skipInDevelopment productionDetector)
   \<and> \<not> isChecking productionDetector
   \<and> localStorage emptyWorld ''app_index_etag'' = None
   \<and> localStorage emptyWorld ''app_index_last_modified'' = None
   \<and> ok (responseWith (Some ''a'') (Some ''t1''))
   \<and> resultOf (checkForUpdate (Fulfilled (responseWith (Some ''a'') (Some ''t1''))) Rejected
         productionDetector emptyWorld) = Inr False
   \<and> host (worldOf (checkForUpdate (Fulfilled (responseWith (Some ''a'') (Some ''t1''))) Rejected
         productionDetector emptyWorld)) = []
   \<and> localStorage (worldOf (checkForUpdate (Fulfilled (responseWith (Some ''a'') (Some ''t1''))) Rejected
         productionDetector emptyWorld)) ''app_index_etag'' = Some ''a''
   \<and> localStorage (worldOf (checkForUpdate (Fulfilled (responseWith (Some ''a'') (Some ''t1''))) Rejected
         productionDetector emptyWorld)) ''app_index_last_modified'' = Some ''t1''
   \<and> resultOf (checkForUpdate (Fulfilled (responseWith (Some ''a'') (Some ''t1''))) Rejected
         (stateOf (checkForUpdate (Fulfilled (responseWith (Some ''a'') (Some ''t1''))) Rejected
            productionDetector emptyWorld))
         (worldOf (checkForUpdate (Fulfilled (responseWith (Some ''a'') (Some ''t1''))) Rejected
            productionDetector emptyWorld))) = Inr False"
  using first_visit_quiescence [of productionDetector emptyWorld
      "responseWith (Some ''a'') (Some ''t1'')" "responseWith (Some ''a'') (Some ''t1'')"
      Rejected Rejected]
  by (simp add: productionDetector_def emptyWorld_def responseWith_def truthy_def)

text \<open>
  C4 (mutual exclusion of checks). While the in-flight flag is set, a call of
  \<^verbatim>\<open>checkForUpdate\<close> resolves \<open>false\<close> in its synchronous prefix and leaves the detector
  and the world, trace included, as they were: it sends no request. The continuation of
  a call that did go in flight never throws and ends with the flag cleared, whatever the
  entry document's request and the probe settle with (no update, update detected, or
  rejected request). From an idle detector that is not development-skipped, the prefix
  sets the flag and sends the one request, a second call started at that point resolves
  \<open>false\<close> at once, and the call run to completion leaves the flag cleared.
\<close>

theorem mutual_exclusion:
  "(isChecking d \<longrightarrow>
      checkForUpdate_start d w = (Some False, d, w)
    \<and> checkForUpdate primary probe d w = (Inr False, d, w))
   \<and> (\<exists>b w'. checkForUpdate_settled primary probe d w = (Inr b, d\<lparr>isChecking := False\<rparr>, w'))
   \<and> (\<not> (isLocalDevelopment d \<and> skipInDevelopment d) \<and> \<not> isChecking d \<longrightarrow>
        checkForUpdate_start d w = (None, d\<lparr>isChecking := True\<rparr>, fetchHead ''/index.html'' w)
      \<and> checkForUpdate_start (d\<lparr>isChecking := True\<rparr>) (fetchHead ''/index.html'' w)
          = (Some False, d\<lparr>isChecking := True\<rparr>, fetchHead ''/index.html'' w)
      \<and> \<not> isChecking (stateOf (checkForUpdate primary probe d w)))"
proof (intro conjI impI)
  assume "isChecking d"
  then show "checkForUpdate_start d w = (Some False, d, w)"
    by (simp add: checkForUpdate_start_def)
  then show "checkForUpdate primary probe d w = (Inr False, d, w)"
    by (simp add: checkForUpdate_def)
next
  obtain b w' where "checkVersionByIndex_settled primary d w = (Inr b, w')"
    using checkVersionByIndex_settled_never_throws by blast
  then show "\<exists>b w'. checkForUpdate_settled primary probe d w = (Inr b, d\<lparr>isChecking := False\<rparr>, w')"
    by (simp add: checkForUpdate_settled_eq)
next
  assume g: "\<not> (isLocalDevelopment d \<and> skipInDevelopment d) \<and> \<not> isChecking d"
  then show "checkForUpdate_start d w = (None, d\<lparr>isChecking := True\<rparr>, fetchHead ''/index.html'' w)"
    by (auto simp add: checkForUpdate_start_def)
  show "checkForUpdate_start (d\<lparr>isChecking := True\<rparr>) (fetchHead ''/index.html'' w)
          = (Some False, d\<lparr>isChecking := True\<rparr>, fetchHead ''/index.html'' w)"
    by (simp add: checkForUpdate_start_def)
  show "\<not> isChecking (stateOf (checkForUpdate primary probe d w))"
    using g by (simp add: checkForUpdate_ungated parts)
qed

theorem mutual_exclusion_witness:
  "\<not> (isLocalDevelopment productionDetector \<and> skipInDevelopment productionDetector)
   \<and> \<not> isChecking productionDetector
   \<and> checkForUpdate_start productionDetector storedWorld
       = (None, productionDetector\<lparr>isChecking := True\<rparr>, fetchHead ''/index.html'' storedWorld)
   \<and> isChecking (productionDetector\<lparr>isChecking := True\<rparr>)
   \<and> checkForUpdate_start (productionDetector\<lparr>isChecking := True\<rparr>) (fetchHead ''/index.html'' storedWorld)
       = (Some False, productionDetector\<lparr>isChecking := True\<rparr>, fetchHead ''/index.html'' storedWorld)
   \<and> trace (fetchHead ''/index.html'' storedWorld) = [FetchHead ''/index.html'']
   \<and> \<not> isChecking (stateOf (checkForUpdate_settled (Fulfilled (responseWith (Some ''b'') (Some ''t1'')))
         Rejected (productionDetector\<lparr>isChecking := True\<rparr>) (fetchHead ''/index.html'' storedWorld)))
   \<and> \<not> isChecking (stateOf (checkForUpdate (Fulfilled (responseWith (Some ''b'') (Some ''t1'')))
         Rejected productionDetector storedWorld))"
proof -
  have g: "\<not> (isLocalDevelopment productionDetector \<and> skipInDevelopment productionDetector)
           \<and> \<not> isChecking productionDetector"
    by (simp add: productionDetector_def)
  obtain b w' where s: "checkForUpdate_settled (Fulfilled (responseWith (Some ''b'') (Some ''t1'')))
         Rejected (productionDetector\<lparr>isChecking := True\<rparr>) (fetchHead ''/index.html'' storedWorld)
         = (Inr b, productionDetector\<lparr>isChecking := True, isChecking := False\<rparr>, w')"
    using mutual_exclusion [of "productionDetector\<lparr>isChecking := True\<rparr>"
        "fetchHead ''/index.html'' storedWorld" "Fulfilled (responseWith (Some ''b'') (Some ''t1''))" Rejected]
    by blast
  show ?thesis
    using g s
      mutual_exclusion [of productionDetector storedWorld
        "Fulfilled (responseWith (Some ''b'') (Some ''t1''))" Rejected]
    by (simp add: parts fetchHead_def storedWorld_def)
qed

text \<open>
  C5 (development gate). When \<^verbatim>\<open>isLocalDevelopment\<close> and \<^verbatim>\<open>skipInDevelopment\<close> both hold,
  every call of \<^verbatim>\<open>checkForUpdate\<close> resolves \<open>false\<close> in its synchronous prefix, whatever
  the network would answer, and leaves the detector and the world as they were: the
  trace gains no request and no storage access.
\<close>

theorem development_gate:
  assumes "isLocalDevelopment d" and "skipInDevelopment d"
  shows "checkForUpdate_start d w = (Some False, d, w)
       \<and> checkForUpdate primary probe d w = (Inr False, d, w)"
  using assms
  by (simp add: checkForUpdate_def checkForUpdate_start_def)

theorem development_gate_witness:
  "isLocalDevelopment developmentDetector \<and> skipInDevelopment developmentDetector
   \<and> checkForUpdate_start developmentDetector storedWorld = (Some False, developmentDetector, storedWorld)
   \<and> checkForUpdate (Fulfilled (responseWith (Some ''b'') (Some ''t2''))) Rejected
        developmentDetector storedWorld = (Inr False, developmentDetector, storedWorld)
   \<and> trace storedWorld = []"
  using development_gate [of developmentDetector storedWorld
      "Fulfilled (responseWith (Some ''b'') (Some ''t2''))" Rejected]
  by (simp add: developmentDetector_def productionDetector_def storedWorld_def)

subsection \<open>Callback isolation\<close>

lemma callInOrder_Nil: "callInOrder a [] h = h"
  by (simp add: callInOrder_def)

lemma callInOrder_Cons: "callInOrder a (c # cs) h = callInOrder a cs (hostAfter (c a h))"
  by (simp add: callInOrder_def)

lemma callInOrder_snoc: "callInOrder a (cs @ [c]) h = hostAfter (c a (callInOrder a cs h))"
  by (simp add: callInOrder_def)

lemma handleResourceError_result:
  "handleResourceError el primary probe d w =
     (Inr (), stateOf (checkForUpdate primary probe d w),
      (if \<not> (isLocalDevelopment d \<and> skipInDevelopment d)
          \<and> resultOf (checkForUpdate primary probe d w) = Inr True
       then (worldOf (checkForUpdate primary probe d w))
              \<lparr>host := callInOrder el (onResourceErrorCallbacks d)
                         (host (worldOf (checkForUpdate primary probe d w)))\<rparr>
       else worldOf (checkForUpdate primary probe d w)))"
proof (cases "(isLocalDevelopment d \<and> skipInDevelopment d) \<or> isChecking d")
  case True
  then show ?thesis
    by (auto simp add: handleResourceError_def checkForUpdate_gated parts)
next
  case False
  then have g: "\<not> (isLocalDevelopment d \<and> skipInDevelopment d)" "\<not> isChecking d"
    by auto
  obtain b w' where s: "checkVersionByIndex_settled primary (d\<lparr>isChecking := True\<rparr>)
      (fetchHead ''/index.html'' w) = (Inr b, w')"
    using checkVersionByIndex_settled_never_throws by blast
  have c: "checkForUpdate primary probe d w = (Inr b, d\<lparr>isChecking := False\<rparr>, w')"
    by (simp add: checkForUpdate_ungated [OF g] s)
  show ?thesis
    using g by (auto simp add: handleResourceError_def c parts forEach_callInOrder)
qed

text \<open>
  What holds of callbacks that act on the host state only. \<^verbatim>\<open>notifyUpdate\<close> returns
  normally, whatever such callbacks do, and leaves the host state that calling every
  callback of the registry once, in registration order, leaves: each callback runs on
  the state the one before it left, whether that one returned or threw (the two
  equations of \<open>callInOrder\<close>). The same holds for the resource-error callbacks of
  \<^verbatim>\<open>handleResourceError\<close>, which are called when the check it runs reports an update.
\<close>

lemma callback_isolation:
  "notifyUpdate reason d w =
      (Inr (), w\<lparr>host := callInOrder reason (onUpdateCallbacks d) (host w)\<rparr>)
   \<and> callInOrder reason [] h = h
   \<and> callInOrder reason (c # cs) h = callInOrder reason cs (hostAfter (c reason h))
   \<and> resultOf (handleResourceError el primary probe d w) = Inr ()
   \<and> (\<not> (isLocalDevelopment d \<and> skipInDevelopment d)
        \<and> resultOf (checkForUpdate primary probe d w) = Inr True \<longrightarrow>
      host (worldOf (handleResourceError el primary probe d w))
        = callInOrder el (onResourceErrorCallbacks d) (host (worldOf (checkForUpdate primary probe d w))))"
  by (simp add: notifyUpdate_result callInOrder_Nil callInOrder_Cons handleResourceError_result parts)

lemma callback_isolation_example:
  "notifyUpdate Redeploy productionDetector emptyWorld = (Inr (), emptyWorld\<lparr>host := [1, 2]\<rparr>)
   \<and> hd (onUpdateCallbacks productionDetector) Redeploy [] = Threw [1]
   \<and> \<not> (isLocalDevelopment productionDetector \<and> skipInDevelopment productionDetector)
   \<and> resultOf (checkForUpdate (Fulfilled (responseWith (Some ''b'') (Some ''t1''))) Rejected
        productionDetector storedWorld) = Inr True
   \<and> resultOf (handleResourceError (Some ''script'') (Fulfilled (responseWith (Some ''b'') (Some ''t1'')))
        Rejected productionDetector storedWorld) = Inr ()
   \<and> host (worldOf (handleResourceError (Some ''script'') (Fulfilled (responseWith (Some ''b'') (Some ''t1'')))
        Rejected productionDetector storedWorld)) = [1, 2, 3]"
proof -
  have u: "resultOf (checkForUpdate (Fulfilled (responseWith (Some ''b'') (Some ''t1''))) Rejected
        productionDetector storedWorld) = Inr True
     \<and> host (worldOf (checkForUpdate (Fulfilled (responseWith (Some ''b'') (Some ''t1''))) Rejected
        productionDetector storedWorld)) = [1, 2]"
    by (simp add: checkForUpdate_fulfilled_ok parts productionDetector_def storedWorld_def
        responseWith_def truthy_def callInOrder_def hostAfter_def)
  show ?thesis
    using u
      callback_isolation [of Redeploy productionDetector emptyWorld "[]"
        "hd (onUpdateCallbacks productionDetector)" "[]" "Some ''script''"
        "Fulfilled (responseWith (Some ''b'') (Some ''t1''))" Rejected]
      callback_isolation [of Redeploy productionDetector storedWorld "[]"
        "hd (onUpdateCallbacks productionDetector)" "[]" "Some ''script''"
        "Fulfilled (responseWith (Some ''b'') (Some ''t1''))" Rejected]
    by (simp add: productionDetector_def emptyWorld_def callInOrder_def hostAfter_def)
qed

text \<open>
  Over the live registries the same holds as long as no registered callback calls
  \<^verbatim>\<open>removeCallback\<close>: the loop leaves the registries as they are and agrees with
  \<open>notifyUpdate\<close> on the same callbacks.
\<close>

lemma tryCallListener_fixed:
  assumes "removes l = []"
  shows "tryCallListener a l r w = (Inr (), r, w\<lparr>host := hostAfter (body l a (host w))\<rparr>)"
  using assms
  by (cases "body l a (host w)")
     (simp_all add: tryCallListener_def callListener_def invoke_def hostAfter_def)

lemma forEachLive_fixed:
  assumes "\<forall>l \<in> set (array r). removes l = []"
  shows "forEachLive array a k n r w =
           (Inr (), r, w\<lparr>host := callInOrder a (map body (take n (drop k (array r)))) (host w)\<rparr>)"
  using assms
proof (induction n arbitrary: k w)
  case 0
  show ?case by (simp add: callInOrder_def)
next
  case (Suc n)
  show ?case
  proof (cases "k < length (array r)")
    case True
    then have m: "removes (array r ! k) = []"
      using Suc.prems by simp
    have d: "drop k (array r) = array r ! k # drop (Suc k) (array r)"
      using True by (simp add: Cons_nth_drop_Suc)
    show ?thesis
      using True
      by (simp add: tryCallListener_fixed [OF m] Suc.IH [OF Suc.prems] d callInOrder_def)
  next
    case False
    then show ?thesis
      by (simp add: Suc.IH [OF Suc.prems])
  qed
qed

lemma notifyUpdate_live_fixed:
  assumes "\<forall>l \<in> set (updateListeners r). removes l = []"
  shows "notifyUpdate_live reason r w =
           (Inr (), r, w\<lparr>host := callInOrder reason (map body (updateListeners r)) (host w)\<rparr>)"
  using assms
  by (simp add: notifyUpdate_live_def forEachLive_fixed)

lemma notifyUpdate_live_agrees:
  assumes "\<forall>l \<in> set (updateListeners r). removes l = []"
    and "onUpdateCallbacks d = map body (updateListeners r)"
  shows "notifyUpdate_live reason r w = (Inr (), r, snd (notifyUpdate reason d w))"
  using assms
  by (simp add: notifyUpdate_live_fixed notifyUpdate_result)

text \<open>
  C7 (callback isolation; the code departs from the claim). With two update callbacks
  registered, 1 before 2, of which 1 unregisters itself when called, one notification
  calls callback 1 only: its \<^verbatim>\<open>removeCallback\<close> splices the array the loop runs over,
  callback 2 moves to index 0, and the loop, going on to index 1, finds nothing there.
  Callback 2, registered when the notification started, is not called, although nothing
  threw and the notification returns normally. The loop over the resource-error
  callbacks skips callback 4 in the same way, after callback 3 has unregistered itself
  and thrown.
\<close>

theorem notification_skips_after_removeCallback:
  "map ident (updateListeners oneShotRegistries) = [1, 2]
   \<and> resultOf (notifyUpdate_live Redeploy oneShotRegistries emptyWorld) = Inr ()
   \<and> host (worldOf (notifyUpdate_live Redeploy oneShotRegistries emptyWorld)) = [1]
   \<and> map ident (updateListeners (stateOf (notifyUpdate_live Redeploy oneShotRegistries emptyWorld))) = [2]
   \<and> map ident (resourceErrorListeners oneShotRegistries) = [3, 4]
   \<and> resultOf (notifyResourceError_live (Some ''script'') oneShotRegistries emptyWorld) = Inr ()
   \<and> host (worldOf (notifyResourceError_live (Some ''script'') oneShotRegistries emptyWorld)) = [3]"
  by (simp add: notifyUpdate_live_def notifyResourceError_live_def oneShotRegistries_def
      tryCallListener_def callListener_def invoke_def removeCallback_def emptyWorld_def parts
      numeral_2_eq_2)

subsection \<open>Absent headers\<close>

lemma truthy_Some: "truthy v \<Longrightarrow> v = Some (the v)"
  by (cases v) (simp_all add: truthy_def)

lemma afterWrites_absent:
  assumes "headers r ''etag'' = None" and "headers r ''last-modified'' = None"
  shows "afterWrites r w = w"
  using assms by (simp add: afterWrites_def setItemIfTruthy_def)

lemma checkForUpdate_trace:
  "\<exists>evs. trace (worldOf (checkForUpdate (Fulfilled r) probe d w)) = trace w @ evs
     \<and> (\<forall>k v. SetItem k v \<in> set evs \<longrightarrow>
           (k = ''app_index_etag'' \<and> headers r ''etag'' = Some v)
         \<or> (k = ''app_index_last_modified'' \<and> headers r ''last-modified'' = Some v))"
proof (cases "(isLocalDevelopment d \<and> skipInDevelopment d) \<or> isChecking d")
  case True
  then show ?thesis
    by (simp add: checkForUpdate_gated parts)
next
  case False
  then have g: "\<not> (isLocalDevelopment d \<and> skipInDevelopment d)" "\<not> isChecking d"
    by auto
  show ?thesis
  proof (cases "ok r")
    case False
    then show ?thesis
      by (simp add: checkForUpdate_fulfilled_not_ok [OF g] parts fetchHead_parts)
  next
    case True
    have e: "truthy (headers r ''etag'') \<Longrightarrow> headers r ''etag'' = Some (the (headers r ''etag''))"
      by (rule truthy_Some)
    have l: "truthy (headers r ''last-modified'')
               \<Longrightarrow> headers r ''last-modified'' = Some (the (headers r ''last-modified''))"
      by (rule truthy_Some)
    show ?thesis
      using e l
      by (auto simp add: checkForUpdate_fulfilled_ok [OF g True] parts afterWrites_trace
          afterReads_parts fetchHead_parts)
  qed
qed

lemma checkForUpdate_etag_absent:
  assumes "headers r ''etag'' = None"
  shows "localStorage (worldOf (checkForUpdate (Fulfilled r) probe d w)) ''app_index_etag''
           = localStorage w ''app_index_etag''
       \<and> (resultOf (checkForUpdate (Fulfilled r) probe d w) = Inr True \<longrightarrow>
            truthy (headers r ''last-modified'')
          \<and> headers r ''last-modified'' \<noteq> localStorage w ''app_index_last_modified'')"
proof (cases "(isLocalDevelopment d \<and> skipInDevelopment d) \<or> isChecking d")
  case True
  then show ?thesis
    by (simp add: checkForUpdate_gated parts)
next
  case False
  then have g: "\<not> (isLocalDevelopment d \<and> skipInDevelopment d)" "\<not> isChecking d"
    by auto
  show ?thesis
  proof (cases "ok r")
    case False
    then show ?thesis
      by (simp add: checkForUpdate_fulfilled_not_ok [OF g] parts fetchHead_parts)
  next
    case True
    show ?thesis
      using assms
      by (auto simp add: checkForUpdate_fulfilled_ok [OF g True] parts afterWrites_etag
          afterReads_parts fetchHead_parts truthy_def)
  qed
qed

lemma checkForUpdate_last_modified_absent:
  assumes "headers r ''last-modified'' = None"
  shows "localStorage (worldOf (checkForUpdate (Fulfilled r) probe d w)) ''app_index_last_modified''
           = localStorage w ''app_index_last_modified''
       \<and> (resultOf (checkForUpdate (Fulfilled r) probe d w) = Inr True \<longrightarrow>
            truthy (headers r ''etag'')
          \<and> headers r ''etag'' \<noteq> localStorage w ''app_index_etag'')"
proof (cases "(isLocalDevelopment d \<and> skipInDevelopment d) \<or> isChecking d")
  case True
  then show ?thesis
    by (simp add: checkForUpdate_gated parts)
next
  case False
  then have g: "\<not> (isLocalDevelopment d \<and> skipInDevelopment d)" "\<not> isChecking d"
    by auto
  show ?thesis
  proof (cases "ok r")
    case False
    then show ?thesis
      by (simp add: checkForUpdate_fulfilled_not_ok [OF g] parts fetchHead_parts)
  next
    case True
    show ?thesis
      using assms
      by (auto simp add: checkForUpdate_fulfilled_ok [OF g True] parts afterWrites_last_modified
          afterReads_parts fetchHead_parts truthy_def)
  qed
qed

lemma checkForUpdate_both_absent:
  assumes "headers r ''etag'' = None" and "headers r ''last-modified'' = None"
  shows "resultOf (checkForUpdate (Fulfilled r) probe d w) = Inr False
       \<and> localStorage (worldOf (checkForUpdate (Fulfilled r) probe d w)) = localStorage w
       \<and> host (worldOf (checkForUpdate (Fulfilled r) probe d w)) = host w"
proof (cases "(isLocalDevelopment d \<and> skipInDevelopment d) \<or> isChecking d")
  case True
  then show ?thesis
    by (simp add: checkForUpdate_gated parts)
next
  case False
  then have g: "\<not> (isLocalDevelopment d \<and> skipInDevelopment d)" "\<not> isChecking d"
    by auto
  show ?thesis
  proof (cases "ok r")
    case False
    then show ?thesis
      by (simp add: checkForUpdate_fulfilled_not_ok [OF g] parts fetchHead_parts)
  next
    case True
    show ?thesis
      using assms
      by (auto simp add: checkForUpdate_fulfilled_ok [OF g True] parts afterWrites_absent
          afterReads_parts fetchHead_parts truthy_def)
  qed
qed

lemma recordInitialVersion_absent:
  "(headers r ''etag'' = None \<longrightarrow>
      localStorage (recordInitialVersion (Fulfilled r) w) ''app_index_etag''
        = localStorage w ''app_index_etag'')
   \<and> (headers r ''last-modified'' = None \<longrightarrow>
      localStorage (recordInitialVersion (Fulfilled r) w) ''app_index_last_modified''
        = localStorage w ''app_index_last_modified'')"
  by (auto simp add: recordInitialVersion_def getItem_def setItemIfTruthy_storage fetchHead_def
      truthy_def Let_def)

text \<open>
  C10 (absent-header frame property). For every call of \<^verbatim>\<open>checkForUpdate\<close> whose request
  is fulfilled with response \<open>r\<close>: every \<^verbatim>\<open>setItem\<close> the call adds to the trace writes
  one of the two fingerprint keys with the value of the corresponding header of \<open>r\<close>,
  so a key is written only when its header is present; when a header is absent, its key
  keeps the value it had, and an update can only be reported because the other header
  is present and differs from its stored value; when both headers are absent, the call
  resolves \<open>false\<close>, calls no callback and leaves the whole storage as it was, stored
  values or not. \<^verbatim>\<open>recordInitialVersion\<close> leaves the key of an absent header as it was,
  too.
\<close>

theorem absent_header_frame:
  "(\<exists>evs. trace (worldOf (checkForUpdate (Fulfilled r) probe d w)) = trace w @ evs
      \<and> (\<forall>k v. SetItem k v \<in> set evs \<longrightarrow>
            (k = ''app_index_etag'' \<and> headers r ''etag'' = Some v)
          \<or> (k = ''app_index_last_modified'' \<and> headers r ''last-modified'' = Some v)))
   \<and> (headers r ''etag'' = None \<longrightarrow>
        localStorage (worldOf (checkForUpdate (Fulfilled r) probe d w)) ''app_index_etag''
          = localStorage w ''app_index_etag''
      \<and> (resultOf (checkForUpdate (Fulfilled r) probe d w) = Inr True \<longrightarrow>
            truthy (headers r ''last-modified'')
          \<and> headers r ''last-modified'' \<noteq> localStorage w ''app_index_last_modified''))
   \<and> (headers r ''last-modified'' = None \<longrightarrow>
        localStorage (worldOf (checkForUpdate (Fulfilled r) probe d w)) ''app_index_last_modified''
          = localStorage w ''app_index_last_modified''
      \<and> (resultOf (checkForUpdate (Fulfilled r) probe d w) = Inr True \<longrightarrow>
            truthy (headers r ''etag'')
          \<and> headers r ''etag'' \<noteq> localStorage w ''app_index_etag''))
   \<and> (headers r ''etag'' = None \<and> headers r ''last-modified'' = None \<longrightarrow>
        resultOf (checkForUpdate (Fulfilled r) probe d w) = Inr False
      \<and> localStorage (worldOf (checkForUpdate (Fulfilled r) probe d w)) = localStorage w
      \<and> host (worldOf (checkForUpdate (Fulfilled r) probe d w)) = host w)
   \<and> (headers r ''etag'' = None \<longrightarrow>
        localStorage (recordInitialVersion (Fulfilled r) w) ''app_index_etag''
          = localStorage w ''app_index_etag'')
   \<and> (headers r ''last-modified'' = None \<longrightarrow>
        localStorage (recordInitialVersion (Fulfilled r) w) ''app_index_last_modified''
          = localStorage w ''app_index_last_modified'')"
  using checkForUpdate_trace [of r probe d w]
    checkForUpdate_etag_absent [of r probe d w]
    checkForUpdate_last_modified_absent [of r probe d w]
    checkForUpdate_both_absent [of r probe d w]
    recordInitialVersion_absent [of r w]
  by blast

theorem absent_header_frame_witness:
  "headers (responseWith None None) ''etag'' = None
   \<and> headers (responseWith None None) ''last-modified'' = None
   \<and> truthy (localStorage storedWorld ''app_index_etag'')
   \<and> resultOf (checkForUpdate (Fulfilled (responseWith None None)) Rejected productionDetector storedWorld)
       = Inr False
   \<and> localStorage (worldOf (checkForUpdate (Fulfilled (responseWith None None)) Rejected
         productionDetector storedWorld)) = localStorage storedWorld
   \<and> host (worldOf (checkForUpdate (Fulfilled (responseWith None None)) Rejected
         productionDetector storedWorld)) = []
   \<and> headers (responseWith None (Some ''t2'')) ''etag'' = None
   \<and> resultOf (checkForUpdate (Fulfilled (responseWith None (Some ''t2''))) Rejected
         productionDetector storedWorld) = Inr True
   \<and> localStorage (worldOf (checkForUpdate (Fulfilled (responseWith None (Some ''t2''))) Rejected
         productionDetector storedWorld)) ''app_index_etag'' = Some ''a''
   \<and> localStorage (worldOf (checkForUpdate (Fulfilled (responseWith None (Some ''t2''))) Rejected
         productionDetector storedWorld)) ''app_index_last_modified'' = Some ''t2''
   \<and> headers (responseWith None (Some ''t2'')) ''last-modified'' \<noteq> localStorage storedWorld ''app_index_last_modified''"
proof -
  have r: "resultOf (checkForUpdate (Fulfilled (responseWith None (Some ''t2''))) Rejected
         productionDetector storedWorld) = Inr True
     \<and> localStorage (worldOf (checkForUpdate (Fulfilled (responseWith None (Some ''t2''))) Rejected
         productionDetector storedWorld)) ''app_index_last_modified'' = Some ''t2''"
    by (simp add: checkForUpdate_fulfilled_ok parts afterWrites_last_modified afterReads_parts
        fetchHead_parts productionDetector_def storedWorld_def responseWith_def truthy_def)
  show ?thesis
    using r
      absent_header_frame [of "responseWith None None" Rejected productionDetector storedWorld]
      absent_header_frame [of "responseWith None (Some ''t2'')" Rejected productionDetector storedWorld]
    by (simp add: storedWorld_def responseWith_def truthy_def)
qed

section \<open>Properties of the prompt and teardown\<close>

lemma dismissedNotification_eq:
  "dismissedNotification =
     \<lparr>container = Some \<lparr>innerHTML = Some
          \<lparr>title = TitleNewVersionFound, description = DescriptionUpgrade, icon = IconRefresh,
           errorDetails = NoBanner, laterButton = True, refreshLabel = LabelRefresh,
           refreshDisabled = False\<rparr>,
        display = True, overlayDisplay = True\<rparr>,
      overlayInBody = True, laterInterval = 1000,
      onRefresh = None, onLater = onLater freshNotification, onClose = onClose freshNotification,
      isVisible = False, refreshing = False, laterTimestamp = 7000,
      scheduled = [(300, HideOverlay)], reloads = 0\<rparr>"
  by (simp add: dismissedNotification_def freshNotification_def newUpdateNotification_def
      show_notification_def updateContent_def getErrorDetails_def handleLater_def
      hide_def callOptional_def invoke_def emptyWorld_def parts)

lemma destroyedNotification_eq:
  "destroyedNotification = dismissedNotification\<lparr>overlayInBody := False, container := None\<rparr>"
  by (simp add: destroyedNotification_def destroy_notification_def dismissedNotification_eq)

lemma wellFormed_new: "wellFormed (newUpdateNotification i r l c)"
  by (simp add: wellFormed_def newUpdateNotification_def)

lemma wellFormed_show: "wellFormed n \<Longrightarrow> wellFormed (show_notification reason f now n)"
  by (auto simp add: wellFormed_def show_notification_def updateContent_def Let_def
      split: option.splits prod.splits)

lemma wellFormed_hide: "wellFormed n \<Longrightarrow> wellFormed (stateOf (hide n w))"
  by (auto simp add: wellFormed_def hide_def parts Let_def
      split: option.splits prod.splits)

lemma wellFormed_hideOverlay: "wellFormed n \<Longrightarrow> wellFormed (hideOverlay n)"
  by (auto simp add: wellFormed_def hideOverlay_def split: option.splits)

lemma wellFormed_handleLater: "wellFormed n \<Longrightarrow> wellFormed (stateOf (handleLater now n w))"
  by (auto simp add: wellFormed_def handleLater_def hide_def parts Let_def
      split: option.splits prod.splits sum.splits)

lemma wellFormed_handleRefresh: "wellFormed n \<Longrightarrow> wellFormed (stateOf (handleRefresh n w))"
  by (auto simp add: wellFormed_def handleRefresh_def parts Let_def
      split: option.splits prod.splits sum.splits)

lemma wellFormed_destroy: "destroy_notification n = Inr n' \<Longrightarrow> wellFormed n'"
  by (auto simp add: wellFormed_def destroy_notification_def split: option.splits if_splits)

lemma destroy_twice: "destroy (fst (destroy d w)) (snd (destroy d w)) = destroy d w"
  by (simp add: destroy_def stopVersionCheck_def split: option.splits)

text \<open>
  C9 (idempotent teardown). On the detector, \<^verbatim>\<open>destroy()\<close> cannot throw, and a second
  \<^verbatim>\<open>destroy()\<close> changes nothing: detector and world (no second \<^verbatim>\<open>clearInterval\<close>) are as
  the first call left them, with the timer cancelled and both callback registries
  empty. On the prompt, \<^verbatim>\<open>destroy()\<close> of a well-formed prompt succeeds, and after any
  successful \<^verbatim>\<open>destroy()\<close> a second one succeeds and returns the prompt unchanged.
\<close>

theorem idempotent_teardown:
  "destroy (fst (destroy d w)) (snd (destroy d w)) = destroy d w
   \<and> timer (fst (destroy d w)) = None
   \<and> onUpdateCallbacks (fst (destroy d w)) = []
   \<and> onResourceErrorCallbacks (fst (destroy d w)) = []
   \<and> (wellFormed n \<longrightarrow>
        (\<exists>n'. destroy_notification n = Inr n' \<and> destroy_notification n' = Inr n'))
   \<and> (\<forall>n'. destroy_notification n = Inr n' \<longrightarrow> destroy_notification n' = Inr n')"
proof (intro conjI)
  show "destroy (fst (destroy d w)) (snd (destroy d w)) = destroy d w"
    by (rule destroy_twice)
  show "timer (fst (destroy d w)) = None"
    by (simp add: destroy_def stopVersionCheck_def split: option.splits)
  show "onUpdateCallbacks (fst (destroy d w)) = []"
    by (simp add: destroy_def stopVersionCheck_def split: option.splits)
  show "onResourceErrorCallbacks (fst (destroy d w)) = []"
    by (simp add: destroy_def stopVersionCheck_def split: option.splits)
  show "wellFormed n \<longrightarrow>
        (\<exists>n'. destroy_notification n = Inr n' \<and> destroy_notification n' = Inr n')"
    by (auto simp add: wellFormed_def destroy_notification_def split: option.splits)
  show "\<forall>n'. destroy_notification n = Inr n' \<longrightarrow> destroy_notification n' = Inr n'"
    by (auto simp add: destroy_notification_def split: option.splits if_splits)
qed

theorem idempotent_teardown_witness:
  "timer productionDetector = Some 7
   \<and> trace (snd (destroy productionDetector emptyWorld)) = [ClearInterval 7]
   \<and> destroy (fst (destroy productionDetector emptyWorld)) (snd (destroy productionDetector emptyWorld))
       = destroy productionDetector emptyWorld
   \<and> timer (fst (destroy productionDetector emptyWorld)) = None
   \<and> onUpdateCallbacks (fst (destroy productionDetector emptyWorld)) = []
   \<and> onResourceErrorCallbacks (fst (destroy productionDetector emptyWorld)) = []
   \<and> wellFormed dismissedNotification
   \<and> destroy_notification dismissedNotification = Inr destroyedNotification
   \<and> destroy_notification destroyedNotification = Inr destroyedNotification"
proof -
  have w: "wellFormed dismissedNotification"
    by (simp add: wellFormed_def dismissedNotification_eq)
  have d: "destroy_notification dismissedNotification = Inr destroyedNotification"
    by (simp add: destroy_notification_def destroyedNotification_eq dismissedNotification_eq)
  have t: "trace (snd (destroy productionDetector emptyWorld)) = [ClearInterval 7]"
    by (simp add: destroy_def stopVersionCheck_def productionDetector_def emptyWorld_def)
  show ?thesis
    using w d t idempotent_teardown [of productionDetector emptyWorld dismissedNotification]
    by (simp add: productionDetector_def)
qed

text \<open>
  C6 as stated (suppression window) fails on a destroyed prompt: inside the window,
  \<^verbatim>\<open>show('resource-error', true)\<close> passes the suppression test but returns at the guard
  \<^verbatim>\<open>if (!this.container) return\<close> of line 157, and the prompt is not visible afterwards.
\<close>

theorem suppression_window_counterexample:
  "laterTimestamp destroyedNotification \<noteq> 0
   \<and> 7500 - laterTimestamp destroyedNotification < laterInterval destroyedNotification
   \<and> \<not> isVisible (show_notification ResourceError True 7500 destroyedNotification)"
  by (simp add: destroyedNotification_eq dismissedNotification_eq show_notification_def)

text \<open>
  C6, amended (suppression window). For every call \<^verbatim>\<open>show(reason, forceUpdate)\<close> with
  \<^verbatim>\<open>laterTimestamp\<close> not 0 and \<^verbatim>\<open>now - laterTimestamp < laterInterval\<close>: if the reason is
  not \<^verbatim>\<open>resource-error\<close> the call changes nothing (visibility, rendered content and every
  other field), whatever \<^verbatim>\<open>forceUpdate\<close> is; a call with reason \<^verbatim>\<open>resource-error\<close> makes
  the prompt visible when the prompt has not been destroyed, and changes nothing on a
  destroyed prompt.
\<close>

theorem suppression_window:
  assumes "laterTimestamp n \<noteq> 0" and "now - laterTimestamp n < laterInterval n"
  shows "(reason \<noteq> ResourceError \<longrightarrow> show_notification reason forceUpdate now n = n)
       \<and> (container n \<noteq> None \<longrightarrow>
            isVisible (show_notification ResourceError forceUpdate now n)
          \<and> isNotificationVisible (show_notification ResourceError forceUpdate now n))
       \<and> (container n = None \<longrightarrow> show_notification ResourceError forceUpdate now n = n)"
  using assms
  by (auto simp add: show_notification_def updateContent_def isNotificationVisible_def Let_def
      split: option.splits prod.splits)

theorem suppression_window_witness:
  "laterTimestamp dismissedNotification \<noteq> 0
   \<and> 7500 - laterTimestamp dismissedNotification < laterInterval dismissedNotification
   \<and> VersionChange \<noteq> ResourceError
   \<and> show_notification VersionChange True 7500 dismissedNotification = dismissedNotification
   \<and> \<not> isVisible dismissedNotification
   \<and> container dismissedNotification \<noteq> None
   \<and> isVisible (show_notification ResourceError False 7500 dismissedNotification)
   \<and> container destroyedNotification = None
   \<and> laterTimestamp destroyedNotification \<noteq> 0
   \<and> 7500 - laterTimestamp destroyedNotification < laterInterval destroyedNotification
   \<and> show_notification ResourceError False 7500 destroyedNotification = destroyedNotification"
  using suppression_window [of dismissedNotification 7500 VersionChange True]
    suppression_window [of dismissedNotification 7500 VersionChange False]
    suppression_window [of destroyedNotification 7500 VersionChange False]
  by (simp add: destroyedNotification_eq dismissedNotification_eq)

text \<open>
  C8 (hide). For every call of \<^verbatim>\<open>hide()\<close> on a prompt that has not been destroyed, the
  returned state has \<^verbatim>\<open>isVisible\<close> and \<^verbatim>\<open>refreshing\<close> false, and \<^verbatim>\<open>onClose\<close>, if there
  is one, has been called in the call itself: the host state returned is the one the
  callback left, while the dialog is as before and its structural hiding is still only
  scheduled, 300 ms ahead. The call returns normally unless \<^verbatim>\<open>onClose\<close> throws.
\<close>

theorem hide_synchronous:
  assumes "container n \<noteq> None"
  shows "isVisible (stateOf (hide n w)) = False
       \<and> refreshing (stateOf (hide n w)) = False
       \<and> host (worldOf (hide n w))
           = (case onClose n of None \<Rightarrow> host w | Some f \<Rightarrow> hostAfter (f () (host w)))
       \<and> resultOf (hide n w)
           = (case onClose n of
                None \<Rightarrow> Inr ()
              | Some f \<Rightarrow> (case f () (host w) of Returned h \<Rightarrow> Inr () | Threw h \<Rightarrow> Inl CallbackThrown))
       \<and> container (stateOf (hide n w)) = container n
       \<and> scheduled (stateOf (hide n w)) = scheduled n @ [(300, HideOverlay)]"
  using assms
  by (auto simp add: hide_def callOptional_def invoke_def hostAfter_def parts Let_def
      split: option.splits outcome.splits)

theorem hide_synchronous_witness:
  "container (show_notification VersionChange False 5 freshNotification) \<noteq> None
   \<and> isVisible (show_notification VersionChange False 5 freshNotification)
   \<and> \<not> isVisible (stateOf (hide (show_notification VersionChange False 5 freshNotification) emptyWorld))
   \<and> \<not> refreshing (stateOf (hide (show_notification VersionChange False 5 freshNotification) emptyWorld))
   \<and> host (worldOf (hide (show_notification VersionChange False 5 freshNotification) emptyWorld)) = [6]
   \<and> scheduled (stateOf (hide (show_notification VersionChange False 5 freshNotification) emptyWorld))
       = [(300, HideOverlay)]"
  using hide_synchronous [of "show_notification VersionChange False 5 freshNotification" emptyWorld]
  by (simp add: freshNotification_def newUpdateNotification_def show_notification_def
      updateContent_def emptyWorld_def hostAfter_def)

end
